theory Spec2Isabelle
  imports Complex_Main "HOL-Library.Word" "HOL-Library.Sublist"
begin

section \<open>The Claude Code process wrapper (\<^verbatim>\<open>run.ts\<close>)\<close>

subsection \<open>JavaScript strings\<close>

text \<open>
  A JavaScript string is a sequence of UTF-16 code units, and \<^verbatim>\<open>s.length\<close> counts
  code units. A literal of the source is written \<open>lit ''...''\<close>.
\<close>

type_synonym code_unit = "16 word"
type_synonym js_string = "code_unit list"
type_synonym byte = "8 word"

definition lit :: "string \<Rightarrow> js_string" where
  "lit s = map of_char s"

text \<open>\<^verbatim>\<open>xs.join(sep)\<close> on an array of strings.\<close>

fun join :: "'a list \<Rightarrow> 'a list list \<Rightarrow> 'a list" where
  "join sep [] = []"
| "join sep [x] = x"
| "join sep (x # y # ys) = x @ sep @ join sep (y # ys)"

subsection \<open>What the host supplies\<close>

text \<open>
  The library functions and ambient values \<^verbatim>\<open>runProcess\<close> reads are parameters:
  \<^verbatim>\<open>String.prototype.toLowerCase\<close>, \<^verbatim>\<open>path.join\<close>, \<^verbatim>\<open>Buffer.from(_, "utf8")\<close>,
  \<^verbatim>\<open>process.platform\<close>, \<^verbatim>\<open>os.tmpdir()\<close>, and the two strings
  \<^verbatim>\<open>Date.now()\<close> and \<^verbatim>\<open>Math.random().toString(36).substring(2)\<close> that go into the
  temporary file's name.
\<close>

record runtime =
  toLowerCase :: "js_string \<Rightarrow> js_string"
  path_join :: "js_string \<Rightarrow> js_string \<Rightarrow> js_string"
  utf8 :: "js_string \<Rightarrow> byte list"
  platform :: js_string
  tmpdir :: js_string
  date_now :: js_string
  math_random :: js_string

text \<open>
  \<^verbatim>\<open>vscode.workspace.fs\<close>: the files, and for each path the rejection (if any) that
  \<^verbatim>\<open>writeFile\<close> and \<^verbatim>\<open>delete\<close> answer with. A rejected operation changes nothing.
\<close>

record file_system =
  files :: "js_string \<rightharpoonup> byte list"
  write_error :: "js_string \<Rightarrow> js_string option"
  delete_error :: "js_string \<Rightarrow> js_string option"

definition writeFile :: "file_system \<Rightarrow> js_string \<Rightarrow> byte list \<Rightarrow> js_string + file_system" where
  "writeFile fs p content =
     (case write_error fs p of
        Some e \<Rightarrow> Inl e
      | None \<Rightarrow> Inr (fs\<lparr>files := (files fs)(p \<mapsto> content)\<rparr>))"

definition delete :: "file_system \<Rightarrow> js_string \<Rightarrow> js_string + file_system" where
  "delete fs p =
     (case delete_error fs p of
        Some e \<Rightarrow> Inl e
      | None \<Rightarrow> Inr (fs\<lparr>files := (files fs)(p := None)\<rparr>))"

subsection \<open>\<^verbatim>\<open>runProcess\<close>\<close>

text \<open>
  \<^verbatim>\<open>ClaudeCodeOptions\<close>. \<^verbatim>\<open>messages\<close> is carried as its \<^verbatim>\<open>JSON.stringify\<close> text, which
  is all \<^verbatim>\<open>runProcess\<close> does with it (it is written to the child's stdin).
\<close>

record claude_code_options =
  systemPrompt :: js_string
  messages :: js_string
  path :: "js_string option"
  modelId :: "js_string option"

text \<open>The call to \<^verbatim>\<open>execa\<close> and the \<^verbatim>\<open>tempFileCleanup\<close> returned with the child
  (\<open>None\<close> is \<^verbatim>\<open>null\<close>, \<open>Some p\<close> the cleanup of the file \<open>p\<close>).\<close>

record spawned =
  command :: js_string
  args :: "js_string list"
  stdin_text :: js_string
  tempFileCleanup :: "js_string option"

datatype run_error =
  TempFileError js_string  \<comment> \<open>\<^verbatim>\<open>Failed to create temporary file for system prompt: ${error}\<close>\<close>

definition claudeCodeTools :: js_string where
  "claudeCodeTools = join (lit '','')
     [lit ''Task'', lit ''Bash'', lit ''Glob'', lit ''Grep'', lit ''LS'', lit ''exit_plan_mode'',
      lit ''Read'', lit ''Edit'', lit ''MultiEdit'', lit ''Write'', lit ''NotebookRead'',
      lit ''NotebookEdit'', lit ''WebFetch'', lit ''TodoRead'', lit ''TodoWrite'', lit ''WebSearch'']"

definition MAX_COMMAND_LINE_LENGTH :: nat where
  "MAX_COMMAND_LINE_LENGTH = 7000"

text \<open>\<^verbatim>\<open>claudeCodePath || "claude"\<close>: an absent or empty path is falsy.\<close>

definition claudePath :: "claude_code_options \<Rightarrow> js_string" where
  "claudePath opts =
     (case path opts of
        None \<Rightarrow> lit ''claude''
      | Some p \<Rightarrow> if p = [] then lit ''claude'' else p)"

definition useTempFileForSystemPrompt :: "claude_code_options \<Rightarrow> bool" where
  "useTempFileForSystemPrompt opts \<longleftrightarrow> length (systemPrompt opts) > MAX_COMMAND_LINE_LENGTH"

definition tempFilePath :: "runtime \<Rightarrow> js_string" where
  "tempFilePath rt =
     path_join rt (tmpdir rt)
       (lit ''claude-system-prompt-'' @ date_now rt @ lit ''-'' @ math_random rt @ lit ''.txt'')"

text \<open>The arguments pushed after the system prompt: the fixed flags, then
  \<^verbatim>\<open>--model\<close> when \<^verbatim>\<open>modelId\<close> is truthy.\<close>

definition restArgs :: "claude_code_options \<Rightarrow> js_string list" where
  "restArgs opts =
     [lit ''--verbose'', lit ''--output-format'', lit ''stream-json'',
      lit ''--disallowedTools'', claudeCodeTools, lit ''--max-turns'', lit ''1'']
     @ (case modelId opts of
          None \<Rightarrow> []
        | Some m \<Rightarrow> if m = [] then [] else [lit ''--model'', m])"

definition isWindows :: "runtime \<Rightarrow> bool" where
  "isWindows rt \<longleftrightarrow> platform rt = lit ''win32''"

definition isAlreadyWrapped :: "runtime \<Rightarrow> claude_code_options \<Rightarrow> bool" where
  "isAlreadyWrapped rt opts \<longleftrightarrow>
     toLowerCase rt (claudePath opts) = lit ''cmd.exe'' \<or> toLowerCase rt (claudePath opts) = lit ''cmd''"

definition runProcess ::
  "runtime \<Rightarrow> file_system \<Rightarrow> claude_code_options \<Rightarrow> run_error + spawned \<times> file_system" where
  "runProcess rt fs opts =
     (case
        (if useTempFileForSystemPrompt opts then
           (case writeFile fs (tempFilePath rt) (utf8 rt (systemPrompt opts)) of
              Inl e \<Rightarrow> Inl (TempFileError e)
            | Inr fs' \<Rightarrow>
                Inr ([lit ''-p'', lit ''--system-prompt'', lit ''@'' @ tempFilePath rt],
                     Some (tempFilePath rt), fs'))
         else Inr ([lit ''-p'', lit ''--system-prompt'', systemPrompt opts], None, fs))
      of
        Inl e \<Rightarrow> Inl e
      | Inr (promptArgs, cleanup, fs') \<Rightarrow>
          (let baseArgs = promptArgs @ restArgs opts;
               wrap = (isWindows rt \<and> \<not> isAlreadyWrapped rt opts)
           in Inr (\<lparr>command = (if wrap then lit ''cmd.exe'' else claudePath opts),
                    args = (if wrap then [lit ''/c'', claudePath opts] @ baseArgs else baseArgs),
                    stdin_text = messages opts,
                    tempFileCleanup = cleanup\<rparr>, fs')))"

subsection \<open>\<^verbatim>\<open>runClaudeCode\<close>\<close>

text \<open>
  The cleanup closure: \<^verbatim>\<open>delete\<close> is attempted and a rejection is swallowed (logged).
\<close>

definition cleanup :: "file_system \<Rightarrow> js_string \<Rightarrow> file_system" where
  "cleanup fs p = (case delete fs p of Inl e \<Rightarrow> fs | Inr fs' \<Rightarrow> fs')"


subsection \<open>Example hosts and options\<close>

text \<open>A host whose \<^verbatim>\<open>toLowerCase\<close> lowers the ASCII letters, with a POSIX-style
  \<^verbatim>\<open>path.join\<close> and an empty, fault-free file system.\<close>

definition ascii_toLowerCase :: "js_string \<Rightarrow> js_string" where
  "ascii_toLowerCase = map (\<lambda>c. if 0x41 \<le> c \<and> c \<le> 0x5A then c + 0x20 else c)"

definition example_runtime :: "string \<Rightarrow> runtime" where
  "example_runtime p =
     \<lparr>toLowerCase = ascii_toLowerCase,
      path_join = (\<lambda>a b. a @ lit ''/'' @ b),
      utf8 = map ucast,
      platform = lit p,
      tmpdir = lit ''/tmp'',
      date_now = lit ''1700000000000'',
      math_random = lit ''k3x9''\<rparr>"

definition empty_fs :: file_system where
  "empty_fs = \<lparr>files = Map.empty, write_error = (\<lambda>p. None), delete_error = (\<lambda>p. None)\<rparr>"

definition example_options :: "js_string \<Rightarrow> string \<Rightarrow> claude_code_options" where
  "example_options prompt p =
     \<lparr>systemPrompt = prompt, messages = lit ''[]'', path = Some (lit p), modelId = None\<rparr>"

section \<open>The diff engine\<close>

text \<open>
  The engine itself (the class \<^verbatim>\<open>MultiSearchReplaceDiffStrategy\<close> that the test file
  imports from \<^verbatim>\<open>../multi-search-replace\<close>) is not among the sources; only its tests
  are. Its definitions below follow the specification, section by section, and take the
  marker lines of the block grammar from the tests. Text is a list of bytes (UTF-8).
\<close>

subsection \<open>Data model (specification, section 3)\<close>

type_synonym line = string

abbreviation nl :: char where
  "nl \<equiv> CHR 0x0A"

abbreviation cr :: char where
  "cr \<equiv> CHR 0x0D"

text \<open>Modelled from the spec: the line terminator style recorded with a Document. The
  terminators are LF and CRLF.\<close>

datatype terminator = LF | CRLF

fun terminator_text :: "terminator \<Rightarrow> string" where
  "terminator_text LF = [nl]"
| "terminator_text CRLF = [cr, nl]"

text \<open>Modelled from the spec: Document, ``an ordered sequence of lines (1-indexed), derived
  by splitting input text on line terminators; original terminator style is recorded so
  it can be restored on output''.\<close>

record document =
  lines :: "line list"
  terminator :: terminator

text \<open>Modelled from the spec: splitting text on line terminators. The text is cut at
  every LF, and a CR directly before the LF belongs to the terminator.\<close>

fun split_on :: "'a \<Rightarrow> 'a list \<Rightarrow> 'a list list" where
  "split_on s [] = [[]]"
| "split_on s (c # cs) =
     (if c = s then [] # split_on s cs
      else (case split_on s cs of [] \<Rightarrow> [[c]] | p # ps \<Rightarrow> (c # p) # ps))"

definition strip_cr :: "line \<Rightarrow> line" where
  "strip_cr l = (if l \<noteq> [] \<and> last l = cr then butlast l else l)"

definition split_lines :: "string \<Rightarrow> line list" where
  "split_lines text = (let ps = split_on nl text in map strip_cr (butlast ps) @ [last ps])"

text \<open>Modelled from the spec: the recorded terminator style, CRLF when the text has a
  CRLF and LF otherwise.\<close>

fun has_crlf :: "string \<Rightarrow> bool" where
  "has_crlf (c # d # cs) = ((c = cr \<and> d = nl) \<or> has_crlf (d # cs))"
| "has_crlf cs = False"

definition parse_document :: "string \<Rightarrow> document" where
  "parse_document text =
     \<lparr>lines = split_lines text, terminator = (if has_crlf text then CRLF else LF)\<rparr>"

text \<open>Modelled from the spec: reassembly of a Document into text, in its recorded
  terminator style.\<close>

definition render :: "document \<Rightarrow> string" where
  "render d = join (terminator_text (terminator d)) (lines d)"

text \<open>Modelled from the spec: EditOperation,
  \<^verbatim>\<open>{ searchText, replaceText, startLine?, endLine? }\<close>; the two line hints are the
  fields \<open>startLine_hint\<close> and \<open>endLine_hint\<close>.\<close>

record edit_operation =
  searchText :: string
  replaceText :: string
  startLine_hint :: "nat option"
  endLine_hint :: "nat option"

text \<open>Modelled from the spec: MatchResult, \<^verbatim>\<open>{ startLine, endLine, confidence }\<close>, a
  1-indexed inclusive line range (\<open>startLine = endLine + 1\<close> for a pure insertion) and the
  similarity achieved, 1 for an exact match.\<close>

record match_result =
  startLine :: nat
  endLine :: nat
  confidence :: rat

text \<open>Modelled from the spec: FailureKind with what the detail of a failure carries: the
  best score found for \<open>NoMatch\<close>, the (0-based) positions of the two conflicting
  operations for \<open>OverlappingEdits\<close>.\<close>

datatype failure =
  MalformedBlock
| AmbiguousInsertion
| NoMatch rat
| OverlappingEdits nat nat

text \<open>Modelled from the spec: ApplyResult, \<^verbatim>\<open>Success { content }\<close> or
  \<^verbatim>\<open>Failure { reason, detail }\<close>.\<close>

datatype apply_result =
  Success string
| Failure failure

text \<open>Modelled from the spec: the configuration of a call: the fuzzy threshold, the size
  of the neighbourhood of a line hint that the fuzzy search is restricted to, and the
  similarity metric, which the specification leaves to the implementer.\<close>

record configuration =
  fuzzyThreshold :: rat
  hintWindow :: nat
  similarity :: "string \<Rightarrow> string \<Rightarrow> rat"

text \<open>Modelled from the spec: the lines of a search or replace text. The empty text has no
  lines (a pure insertion, or a deletion).\<close>

definition text_lines :: "string \<Rightarrow> line list" where
  "text_lines s = (if s = [] then [] else split_lines s)"

subsection \<open>Block Parser (specification, section 4.1)\<close>

text \<open>Modelled from the spec: the marker lines, as the tests write them.\<close>

definition search_marker :: line where
  "search_marker = ''<<<<<<< SEARCH''"

definition divider_marker :: line where
  "divider_marker = ''=======''"

definition replace_marker :: line where
  "replace_marker = ''>>>>>>> REPLACE''"

definition hint_prefix :: string where
  "hint_prefix = '':start_line:''"

definition hint_divider :: line where
  "hint_divider = ''-------''"

text \<open>Modelled from the spec: the line-hint line, \<^verbatim>\<open>:start_line:\<close> followed by the
  decimal digits of the starting line number.\<close>

definition is_digit :: "char \<Rightarrow> bool" where
  "is_digit c \<longleftrightarrow> c \<in> set ''0123456789''"

definition nat_of_digits :: "string \<Rightarrow> nat" where
  "nat_of_digits ds = foldl (\<lambda>n c. 10 * n + (of_char c - 48)) 0 ds"

definition hint_of :: "line \<Rightarrow> nat option" where
  "hint_of l =
     (let ds = drop (length hint_prefix) l
      in if take (length hint_prefix) l = hint_prefix \<and> ds \<noteq> [] \<and> list_all is_digit ds
         then Some (nat_of_digits ds) else None)"

text \<open>Modelled from the spec: the states of the tokenizer. The state \<open>Done\<close> is reached at
  the end of the input and is the result of \<open>parse_lines\<close>.\<close>

datatype parser_state = ExpectSearch | InSearch | ExpectReplace | InReplace

text \<open>Modelled from the spec: the operation a finished block stands for. Search and replace
  text are the block's content lines joined by LF. An empty search text needs a line
  hint.\<close>

definition finish_block ::
  "nat option \<Rightarrow> line list \<Rightarrow> line list \<Rightarrow> failure + edit_operation" where
  "finish_block hint search_acc replace_acc =
     (if join [nl] search_acc = [] \<and> hint = None then Inl AmbiguousInsertion
      else Inr \<lparr>searchText = join [nl] search_acc, replaceText = join [nl] replace_acc,
                startLine_hint = hint, endLine_hint = None\<rparr>)"

text \<open>Modelled from the spec: the Block Parser as a state machine over the lines of the
  instruction text. A marker counts only in the position where it is expected: every other
  line inside a block is content, and text between blocks is skipped. A divider or a
  REPLACE marker where a SEARCH marker is expected, and an input that ends inside a block,
  are \<open>MalformedBlock\<close>.\<close>

fun parse_lines ::
  "parser_state \<Rightarrow> nat option \<Rightarrow> line list \<Rightarrow> line list \<Rightarrow> edit_operation list \<Rightarrow> line list
     \<Rightarrow> failure + edit_operation list" where
  "parse_lines st hint sa ra ops [] =
     (if st = ExpectSearch then Inr ops else Inl MalformedBlock)"
| "parse_lines ExpectSearch hint sa ra ops (l # ls) =
     (if l = search_marker then
        (case ls of
           h # d # rest \<Rightarrow>
             (if hint_of h \<noteq> None \<and> d = hint_divider
              then parse_lines InSearch (hint_of h) [] [] ops rest
              else parse_lines InSearch None [] [] ops ls)
         | _ \<Rightarrow> parse_lines InSearch None [] [] ops ls)
      else if l = divider_marker \<or> l = replace_marker then Inl MalformedBlock
      else parse_lines ExpectSearch None [] [] ops ls)"
| "parse_lines InSearch hint sa ra ops (l # ls) =
     (if l = divider_marker then parse_lines ExpectReplace hint sa [] ops ls
      else parse_lines InSearch hint (sa @ [l]) [] ops ls)"
| "parse_lines ExpectReplace hint sa ra ops (l # ls) =
     (if l = replace_marker then
        (case finish_block hint sa ra of
           Inl f \<Rightarrow> Inl f
         | Inr op \<Rightarrow> parse_lines ExpectSearch None [] [] (ops @ [op]) ls)
      else parse_lines InReplace hint sa (ra @ [l]) ops ls)"
| "parse_lines InReplace hint sa ra ops (l # ls) =
     (if l = replace_marker then
        (case finish_block hint sa ra of
           Inl f \<Rightarrow> Inl f
         | Inr op \<Rightarrow> parse_lines ExpectSearch None [] [] (ops @ [op]) ls)
      else parse_lines InReplace hint sa (ra @ [l]) ops ls)"

definition parse_blocks :: "string \<Rightarrow> failure + edit_operation list" where
  "parse_blocks diffInstructions = parse_lines ExpectSearch None [] [] [] (split_lines diffInstructions)"


subsection \<open>Matcher (specification, section 4.2)\<close>

text \<open>Modelled from the spec: the joined content of a line range, with LF as the normalized
  line terminator.\<close>

definition join_lf :: "line list \<Rightarrow> string" where
  "join_lf ls = join [nl] ls"

text \<open>Modelled from the spec: the candidate window of \<open>n\<close> lines that starts after the first
  \<open>i\<close> lines (so its range is \<open>i + 1\<close> to \<open>i + n\<close>), and the positions where a window
  of \<open>n\<close> lines fits.\<close>

definition window :: "line list \<Rightarrow> nat \<Rightarrow> nat \<Rightarrow> line list" where
  "window ls i n = take n (drop i ls)"

definition window_starts :: "line list \<Rightarrow> nat \<Rightarrow> nat list" where
  "window_starts ls n = [0 ..< Suc (length ls) - n]"

text \<open>Modelled from the spec: the exact matches, ``a contiguous line range whose joined
  content is character-identical to searchText after normalizing line terminators'', in
  document order.\<close>

definition exact_starts :: "line list \<Rightarrow> line list \<Rightarrow> nat list" where
  "exact_starts ls q =
     filter (\<lambda>i. join_lf (window ls i (length q)) = join_lf q) (window_starts ls (length q))"

text \<open>Modelled from the spec: the absolute distance of the range starting after \<open>i\<close> lines
  from the hinted start line \<open>h\<close>.\<close>

definition line_distance :: "nat \<Rightarrow> nat \<Rightarrow> nat" where
  "line_distance h i = (if h \<le> Suc i then Suc i - h else h - Suc i)"

text \<open>Modelled from the spec: ``prefer the exact match whose range is closest to the hint
  (tie-break: smallest absolute distance from hinted startLine, then earliest in
  document)''. The candidates come in document order, and a later one replaces the best so
  far only when it is strictly closer.\<close>

fun nearest :: "nat \<Rightarrow> nat \<Rightarrow> nat list \<Rightarrow> nat" where
  "nearest h best [] = best"
| "nearest h best (i # is) =
     nearest h (if line_distance h i < line_distance h best then i else best) is"

text \<open>Modelled from the spec: the windows the fuzzy fallback scores: the whole document
  without a hint, the neighbourhood of the hint with one.\<close>

definition fuzzy_candidates :: "configuration \<Rightarrow> line list \<Rightarrow> nat \<Rightarrow> nat option \<Rightarrow> nat list" where
  "fuzzy_candidates cfg ls n hint =
     (case hint of
        None \<Rightarrow> window_starts ls n
      | Some h \<Rightarrow> filter (\<lambda>i. line_distance h i \<le> hintWindow cfg) (window_starts ls n))"

text \<open>Modelled from the spec: the similarity score between the search text and a candidate
  window.\<close>

definition score :: "configuration \<Rightarrow> line list \<Rightarrow> line list \<Rightarrow> nat \<Rightarrow> rat" where
  "score cfg ls q i = similarity cfg (join_lf q) (join_lf (window ls i (length q)))"

text \<open>Modelled from the spec: the highest-scoring window, the earliest of them when several
  score the same.\<close>

fun best_window :: "(nat \<Rightarrow> rat) \<Rightarrow> nat \<Rightarrow> nat list \<Rightarrow> nat" where
  "best_window f best [] = best"
| "best_window f best (i # is) = best_window f (if f best < f i then i else best) is"

text \<open>Modelled from the spec: \<^verbatim>\<open>match(document, operation)\<close>, steps 1 to 3. An empty search
  text resolves to the hinted line, which must be a line of the document or the line after
  its last. Otherwise the exact matches are tried, and the fuzzy fallback only when there
  is none. The policy of step 5 (tolerance of one trailing blank line) is configurable and
  is switched off here.\<close>

definition match :: "configuration \<Rightarrow> document \<Rightarrow> edit_operation \<Rightarrow> failure + match_result" where
  "match cfg doc op =
     (let ls = lines doc; q = text_lines (searchText op); n = length q
      in if searchText op = [] then
           (case startLine_hint op of
              None \<Rightarrow> Inl AmbiguousInsertion
            | Some h \<Rightarrow>
                if 1 \<le> h \<and> h \<le> Suc (length ls)
                then Inr \<lparr>startLine = h, endLine = h - 1, confidence = 1\<rparr>
                else Inl (NoMatch 0))
         else
           (case exact_starts ls q of
              i # is \<Rightarrow>
                (let j = (case startLine_hint op of None \<Rightarrow> i | Some h \<Rightarrow> nearest h i is)
                 in Inr \<lparr>startLine = Suc j, endLine = j + n, confidence = 1\<rparr>)
            | [] \<Rightarrow>
                (case fuzzy_candidates cfg ls n (startLine_hint op) of
                   [] \<Rightarrow> Inl (NoMatch 0)
                 | c # cs \<Rightarrow>
                     (let b = best_window (score cfg ls q) c cs; s = score cfg ls q b
                      in if fuzzyThreshold cfg \<le> s
                         then Inr \<lparr>startLine = Suc b, endLine = b + n, confidence = s\<rparr>
                         else Inl (NoMatch s)))))"

text \<open>Modelled from the spec: every operation is matched against the original document, in
  instruction order; the first failure is the result.\<close>

fun match_all ::
  "configuration \<Rightarrow> document \<Rightarrow> edit_operation list \<Rightarrow> failure + match_result list" where
  "match_all cfg doc [] = Inr []"
| "match_all cfg doc (op # ops) =
     (case match cfg doc op of
        Inl f \<Rightarrow> Inl f
      | Inr m \<Rightarrow> (case match_all cfg doc ops of Inl f \<Rightarrow> Inl f | Inr ms \<Rightarrow> Inr (m # ms)))"

subsection \<open>Conflict and Order Resolver (specification, section 4.3)\<close>

text \<open>Modelled from the spec: the inclusive line-range intersection test.\<close>

definition overlap :: "match_result \<Rightarrow> match_result \<Rightarrow> bool" where
  "overlap a b \<longleftrightarrow> startLine a \<le> endLine b \<and> startLine b \<le> endLine a"

text \<open>Modelled from the spec: the first two operations, by position in the instruction
  list, whose ranges intersect.\<close>

fun first_overlapping :: "match_result \<Rightarrow> nat \<Rightarrow> match_result list \<Rightarrow> nat option" where
  "first_overlapping m k [] = None"
| "first_overlapping m k (x # xs) = (if overlap m x then Some k else first_overlapping m (Suc k) xs)"

fun find_conflict :: "nat \<Rightarrow> match_result list \<Rightarrow> (nat \<times> nat) option" where
  "find_conflict k [] = None"
| "find_conflict k (m # ms) =
     (case first_overlapping m (Suc k) ms of
        Some j \<Rightarrow> Some (k, j)
      | None \<Rightarrow> find_conflict (Suc k) ms)"

text \<open>Modelled from the spec: the application order, ``from the highest starting line to the
  lowest''. Ranges that start at the same line keep their instruction order.\<close>

definition application_order ::
  "(match_result \<times> edit_operation) list \<Rightarrow> (match_result \<times> edit_operation) list" where
  "application_order ms = sort_key (\<lambda>(m, op). - int (startLine m)) ms"

definition resolve ::
  "match_result list \<Rightarrow> edit_operation list \<Rightarrow> failure + (match_result \<times> edit_operation) list" where
  "resolve ms ops =
     (case find_conflict 0 ms of
        Some (i, j) \<Rightarrow> Inl (OverlappingEdits i j)
      | None \<Rightarrow> Inr (application_order (zip ms ops)))"

subsection \<open>Applier (specification, section 4.4)\<close>

text \<open>Modelled from the spec: ``replace the inclusive line range [startLine, endLine] with
  the operation's replaceText split into lines, splicing into the document's line
  sequence''.\<close>

definition splice :: "line list \<Rightarrow> match_result \<Rightarrow> line list \<Rightarrow> line list" where
  "splice ls m r = take (startLine m - 1) ls @ r @ drop (endLine m) ls"

text \<open>Modelled from the spec: the matches are applied one after the other, in resolution
  order, each to the lines the previous ones left.\<close>

fun apply_matches :: "line list \<Rightarrow> (match_result \<times> edit_operation) list \<Rightarrow> line list" where
  "apply_matches ls [] = ls"
| "apply_matches ls ((m, op) # rest) =
     apply_matches (splice ls m (text_lines (replaceText op))) rest"

text \<open>Modelled from the spec: one pass over a document: match, resolve, apply. The result
  keeps the document's terminator style.\<close>

definition apply_operations ::
  "configuration \<Rightarrow> document \<Rightarrow> edit_operation list \<Rightarrow> failure + document" where
  "apply_operations cfg doc ops =
     (case match_all cfg doc ops of
        Inl f \<Rightarrow> Inl f
      | Inr ms \<Rightarrow>
          (case resolve ms ops of
             Inl f \<Rightarrow> Inl f
           | Inr ordered \<Rightarrow> Inr (doc\<lparr>lines := apply_matches (lines doc) ordered\<rparr>)))"

subsection \<open>The public operation (specification, section 6)\<close>

text \<open>Modelled from the spec:
  \<^verbatim>\<open>applyDiff(originalContent, diffInstructions, configuration) -> ApplyResult\<close>.\<close>

definition applyDiff :: "configuration \<Rightarrow> string \<Rightarrow> string \<Rightarrow> apply_result" where
  "applyDiff cfg originalContent diffInstructions =
     (case parse_blocks diffInstructions of
        Inl f \<Rightarrow> Failure f
      | Inr ops \<Rightarrow>
          (case apply_operations cfg (parse_document originalContent) ops of
             Inl f \<Rightarrow> Failure f
           | Inr d \<Rightarrow> Success (render d)))"

text \<open>Modelled from the spec: the caller's document after a call. A failure carries no
  content, so the document is what it was.\<close>

definition document_after :: "string \<Rightarrow> apply_result \<Rightarrow> string" where
  "document_after originalContent r =
     (case r of Success content \<Rightarrow> content | Failure f \<Rightarrow> originalContent)"

subsection \<open>A similarity metric\<close>

text \<open>The edit distance of Levenshtein and the ratio it gives, one of the classical
  metrics the specification names. The metric is a parameter of the engine; this one
  serves in the examples.\<close>

fun levenshtein :: "'a list \<Rightarrow> 'a list \<Rightarrow> nat" where
  "levenshtein [] ys = length ys"
| "levenshtein (x # xs) [] = Suc (length xs)"
| "levenshtein (x # xs) (y # ys) =
     (if x = y then levenshtein xs ys
      else Suc (min (levenshtein xs (y # ys)) (min (levenshtein (x # xs) ys) (levenshtein xs ys))))"

definition levenshtein_ratio :: "string \<Rightarrow> string \<Rightarrow> rat" where
  "levenshtein_ratio a b =
     (if a = [] \<and> b = [] then 1
      else 1 - Fract (int (levenshtein a b)) (int (max (length a) (length b))))"

definition example_configuration :: "rat \<Rightarrow> configuration" where
  "example_configuration threshold =
     \<lparr>fuzzyThreshold = threshold, hintWindow = 40, similarity = levenshtein_ratio\<rparr>"


(* DIFF-DEFS *)

section \<open>Properties of the process wrapper\<close>

subsection \<open>Facts about literals\<close>

lemma unat_of_char: "unat (of_char c :: code_unit) = of_char c"
proof -
  have "(of_char c :: nat) < 256" by (rule nat_of_char_less_256)
  then have lt: "(of_char c :: nat) < 2 ^ 16" by (rule less_trans) simp
  have "(of_char c :: code_unit) = of_nat (of_char c)" by (simp add: of_nat_of_char)
  then have "unat (of_char c :: code_unit) = unat (of_nat (of_char c :: nat) :: code_unit)" by simp
  also have "\<dots> = of_char c" using lt by (simp add: unat_of_nat)
  finally show ?thesis .
qed

lemma code_unit_of_char_eq_iff: "(of_char c :: code_unit) = of_char d \<longleftrightarrow> c = d"
proof
  assume "(of_char c :: code_unit) = of_char d"
  then have "unat (of_char c :: code_unit) = unat (of_char d :: code_unit)" by simp
  then show "c = d" by (simp add: unat_of_char)
qed simp

lemma lit_Nil: "lit [] = []"
  by (simp add: lit_def)

lemma lit_Cons: "lit (c # cs) = of_char c # lit cs"
  by (simp add: lit_def)

lemma lit_append: "lit (a @ b) = lit a @ lit b"
  by (simp add: lit_def)

lemma lit_eq_iff: "lit a = lit b \<longleftrightarrow> a = b"
  unfolding lit_def
  by (rule inj_map_eq_map) (simp add: inj_on_def code_unit_of_char_eq_iff)

lemma lit_eq_Nil_iff: "lit a = [] \<longleftrightarrow> a = []"
  by (simp add: lit_def)

lemma length_lit: "length (lit a) = length a"
  by (simp add: lit_def)

lemma claudeCodeTools_Task: "\<exists>t. claudeCodeTools = lit ''Task'' @ t"
  unfolding claudeCodeTools_def by (simp only: join.simps) (rule exI, rule refl)

lemma claudeCodeTools_not_slash_c:
  "claudeCodeTools \<noteq> lit ''/c''" "lit ''/c'' \<noteq> claudeCodeTools"
proof -
  obtain t where t: "claudeCodeTools = lit ''Task'' @ t"
    using claudeCodeTools_Task by blast
  show "claudeCodeTools \<noteq> lit ''/c''" "lit ''/c'' \<noteq> claudeCodeTools"
    unfolding t by (simp_all add: lit_Cons)
qed

lemma at_not_slash_c: "lit ''@'' @ p \<noteq> lit ''/c''" "lit ''/c'' \<noteq> lit ''@'' @ p"
  by (simp_all add: lit_Cons lit_Nil)

subsection \<open>The command line\<close>

lemma fixed_not_slash_c:
  "lit ''/c'' \<notin> set [lit ''--verbose'', lit ''--output-format'', lit ''stream-json'',
      lit ''--disallowedTools'', claudeCodeTools, lit ''--max-turns'', lit ''1'']"
  by (simp add: lit_eq_iff claudeCodeTools_not_slash_c)

lemma restArgs_slash_c:
  "lit ''/c'' \<in> set (restArgs opts) \<longleftrightarrow> modelId opts = Some (lit ''/c'')"
proof (cases "modelId opts")
  case None
  then show ?thesis using fixed_not_slash_c by (simp add: restArgs_def)
next
  case (Some m)
  have "lit ''/c'' \<noteq> lit ''--model''" by (simp add: lit_eq_iff)
  moreover have "lit ''/c'' \<noteq> []" by (simp add: lit_eq_Nil_iff)
  ultimately show ?thesis using Some fixed_not_slash_c
    by (auto simp: restArgs_def)
qed

lemma runProcess_inline:
  assumes "\<not> useTempFileForSystemPrompt opts"
  shows "runProcess rt fs opts =
    Inr (\<lparr>command = (if isWindows rt \<and> \<not> isAlreadyWrapped rt opts then lit ''cmd.exe'' else claudePath opts),
          args = (if isWindows rt \<and> \<not> isAlreadyWrapped rt opts then [lit ''/c'', claudePath opts] else [])
                 @ [lit ''-p'', lit ''--system-prompt'', systemPrompt opts] @ restArgs opts,
          stdin_text = messages opts, tempFileCleanup = None\<rparr>, fs)"
  using assms by (simp add: runProcess_def Let_def)

lemma runProcess_temp:
  assumes "useTempFileForSystemPrompt opts"
  shows "runProcess rt fs opts =
    (case writeFile fs (tempFilePath rt) (utf8 rt (systemPrompt opts)) of
       Inl e \<Rightarrow> Inl (TempFileError e)
     | Inr fs' \<Rightarrow>
    Inr (\<lparr>command = (if isWindows rt \<and> \<not> isAlreadyWrapped rt opts then lit ''cmd.exe'' else claudePath opts),
          args = (if isWindows rt \<and> \<not> isAlreadyWrapped rt opts then [lit ''/c'', claudePath opts] else [])
                 @ [lit ''-p'', lit ''--system-prompt'', lit ''@'' @ tempFilePath rt] @ restArgs opts,
          stdin_text = messages opts, tempFileCleanup = Some (tempFilePath rt)\<rparr>, fs'))"
  using assms by (simp add: runProcess_def Let_def split: sum.splits)

lemma runProcess_InrD:
  assumes "runProcess rt fs opts = Inr (child, fs')"
  shows "command child = (if isWindows rt \<and> \<not> isAlreadyWrapped rt opts then lit ''cmd.exe'' else claudePath opts)"
    and "args child = (if isWindows rt \<and> \<not> isAlreadyWrapped rt opts then [lit ''/c'', claudePath opts] else [])
           @ [lit ''-p'', lit ''--system-prompt'',
              (if useTempFileForSystemPrompt opts then lit ''@'' @ tempFilePath rt else systemPrompt opts)]
           @ restArgs opts"
    and "tempFileCleanup child = (if useTempFileForSystemPrompt opts then Some (tempFilePath rt) else None)"
proof -
  have "command child = (if isWindows rt \<and> \<not> isAlreadyWrapped rt opts then lit ''cmd.exe'' else claudePath opts)
    \<and> args child = (if isWindows rt \<and> \<not> isAlreadyWrapped rt opts then [lit ''/c'', claudePath opts] else [])
           @ [lit ''-p'', lit ''--system-prompt'',
              (if useTempFileForSystemPrompt opts then lit ''@'' @ tempFilePath rt else systemPrompt opts)]
           @ restArgs opts
    \<and> tempFileCleanup child = (if useTempFileForSystemPrompt opts then Some (tempFilePath rt) else None)"
  proof (cases "useTempFileForSystemPrompt opts")
    case True
    show ?thesis
      using assms True unfolding runProcess_temp [OF True]
      by (cases "writeFile fs (tempFilePath rt) (utf8 rt (systemPrompt opts))") auto
  next
    case False
    show ?thesis
      using assms False unfolding runProcess_inline [OF False] by auto
  qed
  then show "command child = (if isWindows rt \<and> \<not> isAlreadyWrapped rt opts then lit ''cmd.exe'' else claudePath opts)"
    and "args child = (if isWindows rt \<and> \<not> isAlreadyWrapped rt opts then [lit ''/c'', claudePath opts] else [])
           @ [lit ''-p'', lit ''--system-prompt'',
              (if useTempFileForSystemPrompt opts then lit ''@'' @ tempFilePath rt else systemPrompt opts)]
           @ restArgs opts"
    and "tempFileCleanup child = (if useTempFileForSystemPrompt opts then Some (tempFilePath rt) else None)"
    by blast+
qed

text \<open>
  Claim C10, as the code has it. When \<^verbatim>\<open>runProcess\<close> spawns a child, the command is
  \<^verbatim>\<open>cmd.exe\<close> with arguments beginning \<^verbatim>\<open>/c <claudePath>\<close> exactly when the platform is
  \<^verbatim>\<open>win32\<close> and the lower-cased path is neither \<^verbatim>\<open>cmd.exe\<close> nor \<^verbatim>\<open>cmd\<close>. In every
  other case the configured path is the command and the arguments are the base arguments,
  which begin with \<^verbatim>\<open>-p\<close>: no \<^verbatim>\<open>/c\<close> is put in front, and \<^verbatim>\<open>/c\<close> is among them only
  when the caller's own system prompt or model id is the string \<^verbatim>\<open>/c\<close>.
\<close>

theorem runProcess_cmd_wrapper:
  assumes "runProcess rt fs opts = Inr (child, fs')"
  shows "((command child = lit ''cmd.exe'' \<and> prefix [lit ''/c'', claudePath opts] (args child))
           \<longleftrightarrow> (platform rt = lit ''win32'' \<and>
                toLowerCase rt (claudePath opts) \<noteq> lit ''cmd.exe'' \<and>
                toLowerCase rt (claudePath opts) \<noteq> lit ''cmd''))
       \<and> (if platform rt = lit ''win32'' \<and>
                toLowerCase rt (claudePath opts) \<noteq> lit ''cmd.exe'' \<and>
                toLowerCase rt (claudePath opts) \<noteq> lit ''cmd''
            then command child = lit ''cmd.exe''
            else command child = claudePath opts \<and> hd (args child) = lit ''-p''
               \<and> (lit ''/c'' \<in> set (args child) \<longleftrightarrow>
                     systemPrompt opts = lit ''/c'' \<or> modelId opts = Some (lit ''/c'')))"
proof -
  note D = runProcess_InrD [OF assms]
  have W: "(isWindows rt \<and> \<not> isAlreadyWrapped rt opts) \<longleftrightarrow>
        (platform rt = lit ''win32'' \<and>
                toLowerCase rt (claudePath opts) \<noteq> lit ''cmd.exe'' \<and>
                toLowerCase rt (claudePath opts) \<noteq> lit ''cmd'')"
    by (auto simp: isWindows_def isAlreadyWrapped_def)
  have p: "lit ''-p'' \<noteq> lit ''/c''" "lit ''/c'' \<noteq> lit ''-p''"
     "lit ''/c'' \<noteq> lit ''--system-prompt''"
    by (simp_all add: lit_eq_iff)
  have len: "\<not> useTempFileForSystemPrompt opts" if "systemPrompt opts = lit ''/c''"
    using that by (simp add: useTempFileForSystemPrompt_def length_lit MAX_COMMAND_LINE_LENGTH_def)
  show ?thesis
  proof (cases "isWindows rt \<and> \<not> isAlreadyWrapped rt opts")
    case True
    then show ?thesis using D W by simp
  next
    case False
    have mem: "lit ''/c'' \<in> set (args child) \<longleftrightarrow>
                     systemPrompt opts = lit ''/c'' \<or> modelId opts = Some (lit ''/c'')"
      using D(2) False p len at_not_slash_c restArgs_slash_c [of opts]
      by (cases "useTempFileForSystemPrompt opts") auto
    have "\<not> prefix [lit ''/c'', claudePath opts] (args child)"
      using D(2) False p by simp
    moreover have "command child = claudePath opts" "hd (args child) = lit ''-p''"
      using D False by simp_all
    ultimately show ?thesis using False W mem by auto
  qed
qed

lemma example_wrapped:
  "isWindows (example_runtime ''win32'')"
  "\<not> isWindows (example_runtime ''linux'')"
  "\<not> isAlreadyWrapped (example_runtime p) (example_options s ''claude'')"
  "isAlreadyWrapped (example_runtime p) (example_options s ''CMD.EXE'')"
  by (simp_all add: isWindows_def isAlreadyWrapped_def example_runtime_def example_options_def
      claudePath_def lit_eq_iff lit_eq_Nil_iff ascii_toLowerCase_def lit_Cons lit_Nil)

lemma example_short:
  "\<not> useTempFileForSystemPrompt (example_options (lit ''hi'') p)"
  "\<not> useTempFileForSystemPrompt (example_options (lit ''/c'') p)"
  "\<not> useTempFileForSystemPrompt (example_options (replicate 7000 0x41) p)"
  "useTempFileForSystemPrompt (example_options (replicate 7001 0x41) p)"
  by (simp_all add: useTempFileForSystemPrompt_def example_options_def length_lit
      MAX_COMMAND_LINE_LENGTH_def)

lemma example_fields:
  "claudePath (example_options s ''claude'') = lit ''claude''"
  "claudePath (example_options s ''CMD.EXE'') = lit ''CMD.EXE''"
  "systemPrompt (example_options s p) = s"
  "messages (example_options s p) = lit ''[]''"
  "modelId (example_options s p) = None"
  by (simp_all add: claudePath_def example_options_def lit_eq_Nil_iff)

text \<open>
  On \<^verbatim>\<open>win32\<close> the path \<^verbatim>\<open>claude\<close> is wrapped, and the path \<^verbatim>\<open>CMD.EXE\<close> (matched
  without regard to case) is not.
\<close>

theorem runProcess_cmd_wrapper_witness:
  "runProcess (example_runtime ''win32'') empty_fs (example_options (lit ''hi'') ''claude'') =
     Inr (\<lparr>command = lit ''cmd.exe'',
           args = [lit ''/c'', lit ''claude'', lit ''-p'', lit ''--system-prompt'', lit ''hi'']
                  @ restArgs (example_options (lit ''hi'') ''claude''),
           stdin_text = lit ''[]'', tempFileCleanup = None\<rparr>, empty_fs) \<and>
   platform (example_runtime ''win32'') = lit ''win32'' \<and>
   toLowerCase (example_runtime ''win32'') (lit ''claude'') \<noteq> lit ''cmd.exe'' \<and>
   toLowerCase (example_runtime ''win32'') (lit ''claude'') \<noteq> lit ''cmd'' \<and>
   runProcess (example_runtime ''win32'') empty_fs (example_options (lit ''hi'') ''CMD.EXE'') =
     Inr (\<lparr>command = lit ''CMD.EXE'',
           args = [lit ''-p'', lit ''--system-prompt'', lit ''hi'']
                  @ restArgs (example_options (lit ''hi'') ''CMD.EXE''),
           stdin_text = lit ''[]'', tempFileCleanup = None\<rparr>, empty_fs) \<and>
   toLowerCase (example_runtime ''win32'') (lit ''CMD.EXE'') = lit ''cmd.exe'' \<and>
   lit ''/c'' \<notin> set ([lit ''-p'', lit ''--system-prompt'', lit ''hi'']
                  @ restArgs (example_options (lit ''hi'') ''CMD.EXE''))"
proof -
  let ?rt = "example_runtime ''win32''"
  let ?c1 = "\<lparr>command = lit ''cmd.exe'',
           args = [lit ''/c'', lit ''claude'', lit ''-p'', lit ''--system-prompt'', lit ''hi'']
                  @ restArgs (example_options (lit ''hi'') ''claude''),
           stdin_text = lit ''[]'', tempFileCleanup = None\<rparr>"
  let ?c2 = "\<lparr>command = lit ''CMD.EXE'',
           args = [lit ''-p'', lit ''--system-prompt'', lit ''hi'']
                  @ restArgs (example_options (lit ''hi'') ''CMD.EXE''),
           stdin_text = lit ''[]'', tempFileCleanup = None\<rparr>"
  have h1: "runProcess ?rt empty_fs (example_options (lit ''hi'') ''claude'') = Inr (?c1, empty_fs)"
    by (simp add: runProcess_inline example_short example_wrapped example_fields)
  have h2: "runProcess ?rt empty_fs (example_options (lit ''hi'') ''CMD.EXE'') = Inr (?c2, empty_fs)"
    by (simp add: runProcess_inline example_short example_wrapped example_fields)
  have l: "toLowerCase ?rt (lit ''CMD.EXE'') = lit ''cmd.exe''"
    by (simp add: example_runtime_def ascii_toLowerCase_def lit_Cons lit_Nil)
  have hi: "lit ''hi'' \<noteq> lit ''/c''"
    by (simp add: lit_eq_iff)
  from runProcess_cmd_wrapper [OF h1] runProcess_cmd_wrapper [OF h2] h1 h2 l hi
  show ?thesis
    by (simp add: example_fields)
qed

text \<open>
  Claim C10 as stated says that off Windows no \<^verbatim>\<open>/c\<close> argument is passed. On
  \<^verbatim>\<open>linux\<close>, with the system prompt \<^verbatim>\<open>/c\<close>, the argument after \<^verbatim>\<open>--system-prompt\<close> is
  \<^verbatim>\<open>/c\<close>.
\<close>

theorem runProcess_slash_c_counterexample:
  "platform (example_runtime ''linux'') \<noteq> lit ''win32'' \<and>
   runProcess (example_runtime ''linux'') empty_fs (example_options (lit ''/c'') ''claude'')
     = Inr (\<lparr>command = lit ''claude'',
              args = [lit ''-p'', lit ''--system-prompt'', lit ''/c'', lit ''--verbose'',
                      lit ''--output-format'', lit ''stream-json'', lit ''--disallowedTools'',
                      claudeCodeTools, lit ''--max-turns'', lit ''1''],
              stdin_text = lit ''[]'', tempFileCleanup = None\<rparr>, empty_fs) \<and>
   lit ''/c'' \<in> set [lit ''-p'', lit ''--system-prompt'', lit ''/c'', lit ''--verbose'',
                      lit ''--output-format'', lit ''stream-json'', lit ''--disallowedTools'',
                      claudeCodeTools, lit ''--max-turns'', lit ''1'']"
  using example_wrapped(2)
  by (simp add: runProcess_inline example_short example_wrapped example_fields restArgs_def
      isWindows_def)




end
